theory Spec2Isabelle
  imports Main "HOL-Library.Sublist"
begin

section \<open>The activities page of \<^verbatim>\<open>src/static/app.js\<close>\<close>

text \<open>
  The script keeps all of its state in the document: the list container
  \<^verbatim>\<open>#activities-list\<close>, the dropdown \<^verbatim>\<open>#activity\<close>, the form \<^verbatim>\<open>#signup-form\<close> and the
  message area \<^verbatim>\<open>#message\<close>. The model threads a record of these through every function,
  together with what the script does to the outside: the requests it sends, the
  timers it schedules and the lines it writes to the console.

  JavaScript strings are modelled by their UTF-8 bytes (\<^typ>\<open>string\<close>). The script never
  measures or indexes a string, and \<^verbatim>\<open>encodeURIComponent\<close> works on exactly these bytes.
\<close>

subsection \<open>Data\<close>

text \<open>An activity as \<^verbatim>\<open>GET /activities\<close> delivers it; the map itself is the list of
  its entries in the order of \<^verbatim>\<open>Object.entries\<close>. A parsed body is taken to have this
  shape; a body of another shape (an entry without \<^verbatim>\<open>participants\<close>, say) is outside the
  model.

  \<^verbatim>\<open>max_participants\<close> is an integer that a JavaScript number holds exactly, below
  \<open>2\<^sup>5\<^sup>3\<close> in magnitude: these are the numbers the platform prints digit for digit.\<close>

typedef safe_integer = "{i :: int. - (2 ^ 53) < i \<and> i < 2 ^ 53}"
  by (rule exI [of _ 0]) simp

record activity =
  description :: string
  schedule :: string
  max_participants :: safe_integer
  participants :: "string list"

type_synonym activities = "(string \<times> activity) list"

text \<open>What an awaited promise can reject with: \<^verbatim>\<open>fetch\<close> rejects with a \<^verbatim>\<open>TypeError\<close> on a
  transport failure, \<^verbatim>\<open>response.json()\<close> with a \<^verbatim>\<open>SyntaxError\<close> on a body that is not
  JSON, and reading an unbound identifier throws a \<^verbatim>\<open>ReferenceError\<close>.\<close>

datatype exn = TypeError | SyntaxError | ReferenceError

record 'a response =
  status :: nat
  json :: "exn + 'a"

type_synonym 'a fetch_result = "exn + 'a response"

definition ok :: "'a response \<Rightarrow> bool" where
  "ok r = (200 \<le> status r \<and> status r \<le> 299)"

text \<open>What the script reads from the JSON body of a signup or unregister response. A
  property of the body is \<^verbatim>\<open>undefined\<close> (missing), \<^verbatim>\<open>null\<close>, a string, or some other
  value (a number, a boolean, a list, an object), which is given here by what the
  script can see of it: whether it is truthy and the text the platform converts it to.\<close>

datatype js_value = Undefined | Null | Str string | Other bool string

text \<open>The body itself is the JSON \<^verbatim>\<open>null\<close>, or a value whose properties \<^verbatim>\<open>message\<close> and
  \<^verbatim>\<open>detail\<close> read as given. Reading a property of \<^verbatim>\<open>null\<close> throws a \<^verbatim>\<open>TypeError\<close>.\<close>

datatype result = NullBody | Body js_value js_value

definition prop_message :: "result \<Rightarrow> exn + js_value" where
  "prop_message result = (case result of NullBody \<Rightarrow> Inl TypeError | Body m d \<Rightarrow> Inr m)"

definition prop_detail :: "result \<Rightarrow> exn + js_value" where
  "prop_detail result = (case result of NullBody \<Rightarrow> Inl TypeError | Body m d \<Rightarrow> Inr d)"

text \<open>An element of the list container. What it holds is either a text, or whatever the
  platform's HTML parser makes of the markup assigned to its \<^verbatim>\<open>innerHTML\<close>; the parser
  is not part of the model, so the markup is kept as assigned.\<close>

datatype content = Text string | Parsed string

record element =
  localName :: string
  className :: string
  innerHTML :: content

record select_option =
  opt_value :: string
  opt_textContent :: string

record select =
  options :: "select_option list"
  selectedIndex :: nat

record message_area =
  textContent :: string
  classList :: "string list"

datatype http_method = GET | POST | DELETE

record request =
  req_method :: http_method
  req_url :: string
  req_headers :: "(string \<times> string) list"
  req_body :: "string option"

text \<open>The page. \<^verbatim>\<open>timers\<close> holds the delay of every pending \<^verbatim>\<open>setTimeout\<close>; the only
  callback the script ever schedules is the one that hides the message area.\<close>

record page =
  activitiesList :: "element list"
  activitySelect :: select
  email_value :: string
  email_defaultValue :: string
  messageDiv :: message_area
  timers :: "nat list"
  console :: "(string \<times> exn) list"
  requests :: "request list"

subsection \<open>Template literals\<close>

text \<open>Interpolating a number into a template literal writes it in decimal; the
  numbers here are an array length (below \<open>2\<^sup>3\<^sup>2\<close>) and the integer
  \<^verbatim>\<open>max_participants\<close>, both printed digit for digit.\<close>

fun ToString_nat :: "nat \<Rightarrow> string" where
  "ToString_nat n =
     (if n < 10 then [''0123456789'' ! n]
      else ToString_nat (n div 10) @ [''0123456789'' ! (n mod 10)])"

declare ToString_nat.simps [simp del]

definition Number_toString :: "safe_integer \<Rightarrow> string" where
  "Number_toString n =
     (let i = Rep_safe_integer n
      in if i < 0 then ''-'' @ ToString_nat (nat (- i)) else ToString_nat (nat i))"

text \<open>The row of one participant: the template of the arrow function passed to
  \<^verbatim>\<open>details.participants.map\<close> (lines 29 to 36), byte for byte, cut into the opening
  tag of the row, the span with the address, the removal button and the white space
  between them. The button's label is kept as the seven bytes the source file holds.\<close>

definition participant_item_open :: string where
  \<open>participant_item_open = ''<div class="participant-item">''\<close>

definition participant_email :: "string \<Rightarrow> string" where
  \<open>participant_email email = ''<span class="participant-email">'' @ email @ ''</span>''\<close>

definition delete_btn :: "string \<Rightarrow> string \<Rightarrow> string" where
  \<open>delete_btn name email =
     ''<button class="delete-btn" onclick="unregisterParticipant('' @
       [CHR 0x27] @ name @ [CHR 0x27] @ '', '' @ [CHR 0x27] @ email @ [CHR 0x27] @
       '')" title="Remove participant">'' @
     [CHR 0x0A] @ ''                    '' @
       [CHR 0xC3, CHR 0xA2, CHR 0xC5, CHR 0x93, CHR 0xE2, CHR 0x80, CHR 0x93] @
     [CHR 0x0A] @ ''                  </button>''\<close>

definition participant_item :: "string \<Rightarrow> string \<Rightarrow> string" where
  \<open>participant_item name email =
     [CHR 0x0A] @ ''                '' @ participant_item_open @
     [CHR 0x0A] @ ''                  '' @ participant_email email @
     [CHR 0x0A] @ ''                  '' @ delete_btn name email @
     [CHR 0x0A] @ ''                </div>'' @
     [CHR 0x0A] @ ''              ''\<close>

definition no_participants :: string where
  \<open>no_participants = ''<p class="no-participants">No participants yet</p>''\<close>

definition participants_list_open :: string where
  \<open>participants_list_open = ''<div class="participants-list">''\<close>

text \<open>\<^verbatim>\<open>const participantsList = details.participants.length > 0 ? ... : ...\<close>
  (lines 28 to 37); \<^verbatim>\<open>join('')\<close> is \<^const>\<open>concat\<close>.\<close>

definition participantsList :: "string \<Rightarrow> activity \<Rightarrow> string" where
  "participantsList name details =
     (if length (participants details) > 0
      then participants_list_open @
           concat (map (\<lambda>email. participant_item name email) (participants details)) @
           ''</div>''
      else no_participants)"

text \<open>The card's markup (lines 39 to 48), cut into its consecutive pieces: the lines up
  to the capacity, the capacity paragraph, the opening of the participants section, the
  participants spliced in, and the closing lines. \<^verbatim>\<open>spotsLeft\<close> (line 26) is computed
  and never read, so it has no counterpart here.\<close>

definition card_intro :: "string \<Rightarrow> activity \<Rightarrow> string" where
  \<open>card_intro name details =
     [CHR 0x0A] @ ''          <h4>'' @ name @ ''</h4>'' @
     [CHR 0x0A] @ ''          <p><strong>Description:</strong> '' @ description details @ ''</p>'' @
     [CHR 0x0A] @ ''          <p><strong>Schedule:</strong> '' @ schedule details @ ''</p>'' @
     [CHR 0x0A] @ ''          ''\<close>

definition capacity_paragraph :: "activity \<Rightarrow> string" where
  \<open>capacity_paragraph details =
     ''<p><strong>Capacity:</strong> '' @
       ToString_nat (length (participants details)) @ ''/'' @
       Number_toString (max_participants details) @ ''</p>''\<close>

definition participants_section_open :: string where
  \<open>participants_section_open =
     [CHR 0x0A] @ ''          <div class="participants-section">'' @
     [CHR 0x0A] @ ''              <h5>Current Participants:</h5>'' @
     [CHR 0x0A] @ ''              ''\<close>

definition card_tail :: string where
  \<open>card_tail = [CHR 0x0A] @ ''          </div>'' @ [CHR 0x0A] @ ''        ''\<close>

definition card_innerHTML :: "string \<Rightarrow> activity \<Rightarrow> string" where
  "card_innerHTML name details =
     card_intro name details @ capacity_paragraph details @ participants_section_open @
     participantsList name details @ card_tail"

subsection \<open>fetchActivities\<close>

text \<open>\<^verbatim>\<open>activitySelect.innerHTML = '<option value="">-- Select an activity --</option>'\<close>
  leaves the dropdown with this one option, selected.\<close>

definition placeholder_option :: select_option where
  "placeholder_option = \<lparr>opt_value = '''', opt_textContent = ''-- Select an activity --''\<rparr>"

definition activities_request :: request where
  "activities_request =
     \<lparr>req_method = GET, req_url = ''/activities'', req_headers = [], req_body = None\<rparr>"

text \<open>The callback of \<^verbatim>\<open>Object.entries(activities).forEach\<close> (lines 22 to 59).\<close>

definition render_activity :: "bool \<Rightarrow> page \<Rightarrow> string \<times> activity \<Rightarrow> page" where
  "render_activity refreshDropdown st entry =
     (case entry of (name, details) \<Rightarrow>
        let activityCard =
              \<lparr>localName = ''div'', className = ''activity-card'',
               innerHTML = Parsed (card_innerHTML name details)\<rparr>;
            st1 = st\<lparr>activitiesList := activitiesList st @ [activityCard]\<rparr>
        in if refreshDropdown
           then st1\<lparr>activitySelect := (activitySelect st1)
                  \<lparr>options := options (activitySelect st1) @
                     [\<lparr>opt_value = name, opt_textContent = name\<rparr>]\<rparr>\<rparr>
           else st1)"

text \<open>The \<^verbatim>\<open>try\<close> block of \<^verbatim>\<open>fetchActivities\<close> (lines 10 to 59). A throw is \<^const>\<open>Inl\<close> of the
  exception and the page as it stands at that moment. \<^verbatim>\<open>res\<close> is what the awaited
  \<^verbatim>\<open>fetch("/activities")\<close> settles with; \<^verbatim>\<open>response.ok\<close> is never read here.\<close>

definition fetchActivities_try ::
  "bool \<Rightarrow> activities fetch_result \<Rightarrow> page \<Rightarrow> (exn \<times> page) + page" where
  "fetchActivities_try refreshDropdown res st =
     (let st0 = st\<lparr>requests := requests st @ [activities_request]\<rparr> in
      case res of
        Inl error \<Rightarrow> Inl (error, st0)
      | Inr response \<Rightarrow>
          (case json response of
             Inl error \<Rightarrow> Inl (error, st0)
           | Inr activities \<Rightarrow>
               let st1 = st0\<lparr>activitiesList := []\<rparr>;
                   st2 = (if refreshDropdown
                          then st1\<lparr>activitySelect :=
                                 \<lparr>options = [placeholder_option], selectedIndex = 0\<rparr>\<rparr>
                          else st1)
               in Inr (foldl (render_activity refreshDropdown) st2 activities)))"

definition failed_to_load :: element where
  "failed_to_load =
     \<lparr>localName = ''p'', className = '''',
      innerHTML = Text ''Failed to load activities. Please try again later.''\<rparr>"

text \<open>The whole function with its \<^verbatim>\<open>catch\<close> (lines 60 to 63). The result is how the
  promise of the \<^verbatim>\<open>async\<close> function settles: \<^const>\<open>Inr\<close> fulfilled, \<^const>\<open>Inl\<close> rejected.\<close>

definition fetchActivities ::
  "bool \<Rightarrow> activities fetch_result \<Rightarrow> page \<Rightarrow> (exn \<times> page) + page" where
  "fetchActivities refreshDropdown res st =
     (case fetchActivities_try refreshDropdown res st of
        Inr st' \<Rightarrow> Inr st'
      | Inl (error, st') \<Rightarrow>
          Inr (st'\<lparr>activitiesList := [failed_to_load],
                   console := console st' @ [(''Error fetching activities:'', error)]\<rparr>))"

subsection \<open>The message area and the form\<close>

text \<open>Assigning \<^verbatim>\<open>className\<close> replaces every class token; \<^verbatim>\<open>classList.remove\<close> and
  \<^verbatim>\<open>classList.add\<close> work on the token list. Assigning to \<^verbatim>\<open>textContent\<close> converts the
  value to text; \<^verbatim>\<open>undefined\<close> and \<^verbatim>\<open>null\<close> leave the empty string.\<close>

definition text_of :: "js_value \<Rightarrow> string" where
  "text_of v = (case v of Undefined \<Rightarrow> [] | Null \<Rightarrow> [] | Str s \<Rightarrow> s | Other b t \<Rightarrow> t)"

definition truthy :: "js_value \<Rightarrow> bool" where
  "truthy v = (case v of Undefined \<Rightarrow> False | Null \<Rightarrow> False | Str s \<Rightarrow> s \<noteq> [] | Other b t \<Rightarrow> b)"

definition set_textContent :: "js_value \<Rightarrow> message_area \<Rightarrow> message_area" where
  "set_textContent v m = m\<lparr>textContent := text_of v\<rparr>"

definition set_className :: "string \<Rightarrow> message_area \<Rightarrow> message_area" where
  "set_className c m = m\<lparr>classList := [c]\<rparr>"

definition classList_remove :: "string \<Rightarrow> message_area \<Rightarrow> message_area" where
  "classList_remove c m = m\<lparr>classList := removeAll c (classList m)\<rparr>"

definition classList_add :: "string \<Rightarrow> message_area \<Rightarrow> message_area" where
  "classList_add c m =
     m\<lparr>classList := (if c \<in> set (classList m) then classList m else classList m @ [c])\<rparr>"

definition visible :: "message_area \<Rightarrow> bool" where
  "visible m = (''hidden'' \<notin> set (classList m))"

text \<open>\<^verbatim>\<open>result.detail || "An error occurred"\<close>: the right operand is taken when the left
  one is falsy.\<close>

definition detail_or_default :: "js_value \<Rightarrow> js_value" where
  "detail_or_default d = (if truthy d then d else Str ''An error occurred'')"

text \<open>The callback of both \<^verbatim>\<open>setTimeout\<close> calls (lines 100 and 146), run when the oldest
  pending timer elapses.\<close>

definition timer_elapses :: "page \<Rightarrow> page" where
  "timer_elapses st =
     (case timers st of
        [] \<Rightarrow> st
      | d # ds \<Rightarrow> st\<lparr>messageDiv := classList_add ''hidden'' (messageDiv st), timers := ds\<rparr>)"

text \<open>\<^verbatim>\<open>document.getElementById("activity").value\<close>: the value of the selected option,
  empty when there is none.\<close>

definition select_value :: "select \<Rightarrow> string" where
  "select_value s =
     (if selectedIndex s < length (options s) then opt_value (options s ! selectedIndex s)
      else [])"

text \<open>\<^verbatim>\<open>signupForm.reset()\<close>: the e-mail field returns to its default value and the dropdown
  to its first option (no option the script creates carries the \<^verbatim>\<open>selected\<close> attribute).\<close>

definition form_reset :: "page \<Rightarrow> page" where
  "form_reset st =
     st\<lparr>email_value := email_defaultValue st,
        activitySelect := (activitySelect st)\<lparr>selectedIndex := 0\<rparr>\<rparr>"

subsection \<open>Requests\<close>

text \<open>\<^verbatim>\<open>encodeURIComponent\<close> on the UTF-8 bytes of its argument: the unreserved characters
  \<^verbatim>\<open>A-Z a-z 0-9 - _ . ! ~ * ' ( )\<close> stand for themselves, every other byte becomes
  \<^verbatim>\<open>%XX\<close> in upper-case hexadecimal.\<close>

definition uri_unreserved :: "char \<Rightarrow> bool" where
  "uri_unreserved c =
     (c \<in> set ''ABCDEFGHIJKLMNOPQRSTUVWXYZabcdefghijklmnopqrstuvwxyz0123456789-_.!~*()'' \<or>
      c = CHR 0x27)"

definition hex_digit :: "nat \<Rightarrow> char" where
  "hex_digit n = ''0123456789ABCDEF'' ! (n mod 16)"

definition percent_byte :: "char \<Rightarrow> string" where
  "percent_byte c =
     [CHR ''%'', hex_digit ((of_char c :: nat) div 16), hex_digit ((of_char c :: nat) mod 16)]"

definition encodeURIComponent :: "string \<Rightarrow> string" where
  "encodeURIComponent s = concat (map (\<lambda>c. if uri_unreserved c then [c] else percent_byte c) s)"


definition form_headers :: "(string \<times> string) list" where
  "form_headers = [(''Content-Type'', ''application/x-www-form-urlencoded'')]"

text \<open>The arguments of \<^verbatim>\<open>fetch\<close> at lines 74 to 83 and at lines 120 to 129.\<close>

definition signup_request :: "string \<Rightarrow> string \<Rightarrow> request" where
  "signup_request activity email =
     \<lparr>req_method = POST,
      req_url = ''/activities/'' @ encodeURIComponent activity @ ''/signup'',
      req_headers = form_headers,
      req_body = Some (''email='' @ encodeURIComponent email)\<rparr>"

definition unregister_request :: "string \<Rightarrow> string \<Rightarrow> request" where
  "unregister_request activityName email =
     \<lparr>req_method = DELETE,
      req_url = ''/activities/'' @ encodeURIComponent activityName @ ''/unregister'',
      req_headers = form_headers,
      req_body = Some (''email='' @ encodeURIComponent email)\<rparr>"

subsection \<open>The submit handler of the signup form\<close>

text \<open>The \<^verbatim>\<open>try\<close> block (lines 74 to 102). \<^verbatim>\<open>res\<close> is what the signup request settles with
  and \<^verbatim>\<open>reload\<close> what the request of the reload settles with. Each branch of the
  \<^verbatim>\<open>if\<close> starts by reading a property of \<^verbatim>\<open>result\<close>, which throws when the body is
  \<^verbatim>\<open>null\<close>. \<^verbatim>\<open>fetchActivities(false)\<close> is called without \<^verbatim>\<open>await\<close>: how its promise
  settles is not looked at. Its effects are applied at the call; they touch the list
  container, the console and the request log only, which the rest of the handler
  neither reads nor writes.\<close>

definition signup_try ::
  "string \<Rightarrow> string \<Rightarrow> result fetch_result \<Rightarrow> activities fetch_result \<Rightarrow> page \<Rightarrow>
   (exn \<times> page) + page" where
  "signup_try activity email res reload st =
     (let st0 = st\<lparr>requests := requests st @ [signup_request activity email]\<rparr> in
      case res of
        Inl error \<Rightarrow> Inl (error, st0)
      | Inr response \<Rightarrow>
          (case json response of
             Inl error \<Rightarrow> Inl (error, st0)
           | Inr result \<Rightarrow>
               let r1 =
                     (if ok response
                      then (case prop_message result of
                              Inl error \<Rightarrow> Inl (error, st0)
                            | Inr message \<Rightarrow>
                                let s1 = st0\<lparr>messageDiv :=
                                           set_className ''success''
                                             (set_textContent message (messageDiv st0))\<rparr>;
                                    s2 = form_reset s1
                                in (case fetchActivities False reload s2 of
                                      Inr s3 \<Rightarrow> Inr s3
                                    | Inl (e, s3) \<Rightarrow> Inr s3))
                      else (case prop_detail result of
                              Inl error \<Rightarrow> Inl (error, st0)
                            | Inr detail \<Rightarrow>
                                Inr (st0\<lparr>messageDiv :=
                                       set_className ''error''
                                         (set_textContent (detail_or_default detail)
                                            (messageDiv st0))\<rparr>)))
               in (case r1 of
                     Inl thrown \<Rightarrow> Inl thrown
                   | Inr st1 \<Rightarrow>
                       let st2 = st1\<lparr>messageDiv := classList_remove ''hidden'' (messageDiv st1)\<rparr>
                       in Inr (st2\<lparr>timers := timers st2 @ [5000]\<rparr>))))"

text \<open>The handler (lines 67 to 109): it reads the two fields, runs the \<^verbatim>\<open>try\<close> block, and
  its \<^verbatim>\<open>catch\<close> (lines 103 to 108) shows the fixed text and logs the error.\<close>

definition signup_submit :: "result fetch_result \<Rightarrow> activities fetch_result \<Rightarrow> page \<Rightarrow> page" where
  "signup_submit res reload st =
     (let email = email_value st;
          activity = select_value (activitySelect st)
      in (case signup_try activity email res reload st of
            Inr st' \<Rightarrow> st'
          | Inl (error, st') \<Rightarrow>
              st'\<lparr>messageDiv :=
                    classList_remove ''hidden''
                      (set_className ''error''
                         (set_textContent (Str ''Failed to sign up. Please try again.'')
                            (messageDiv st'))),
                  console := console st' @ [(''Error signing up:'', error)]\<rparr>))"

subsection \<open>unregisterParticipant\<close>

text \<open>\<^verbatim>\<open>unregisterParticipant\<close> is declared at the top level of the script (line 116),
  while \<^verbatim>\<open>fetchActivities\<close> is declared inside the callback of the \<^verbatim>\<open>DOMContentLoaded\<close>
  listener (line 8, the callback closes at line 113). What the identifier
  \<^verbatim>\<open>fetchActivities\<close> at line 137 refers to is therefore decided by the global scope,
  not by this declaration; the model takes that binding as the parameter \<^verbatim>\<open>scope\<close>:
  \<^const>\<open>None\<close> when nothing of that name is in scope, in which case evaluating the call
  throws a \<^verbatim>\<open>ReferenceError\<close>.\<close>

type_synonym reload_function =
  "bool \<Rightarrow> activities fetch_result \<Rightarrow> page \<Rightarrow> (exn \<times> page) + page"

text \<open>The \<^verbatim>\<open>try\<close> block (lines 120 to 148). Here the reload is awaited, so a rejection
  would be thrown on.\<close>

definition unregister_try ::
  "reload_function option \<Rightarrow> string \<Rightarrow> string \<Rightarrow> result fetch_result \<Rightarrow>
   activities fetch_result \<Rightarrow> page \<Rightarrow> (exn \<times> page) + page" where
  "unregister_try scope activityName email res reload st =
     (let st0 = st\<lparr>requests := requests st @ [unregister_request activityName email]\<rparr> in
      case res of
        Inl error \<Rightarrow> Inl (error, st0)
      | Inr response \<Rightarrow>
          (case json response of
             Inl error \<Rightarrow> Inl (error, st0)
           | Inr result \<Rightarrow>
               let r1 =
                     (if ok response
                      then (case prop_message result of
                              Inl error \<Rightarrow> Inl (error, st0)
                            | Inr message \<Rightarrow>
                                let s1 = st0\<lparr>messageDiv :=
                                           set_className ''success''
                                             (set_textContent message (messageDiv st0))\<rparr>
                                in (case scope of
                                      None \<Rightarrow> Inl (ReferenceError, s1)
                                    | Some f \<Rightarrow> f False reload s1))
                      else (case prop_detail result of
                              Inl error \<Rightarrow> Inl (error, st0)
                            | Inr detail \<Rightarrow>
                                Inr (st0\<lparr>messageDiv :=
                                       set_className ''error''
                                         (set_textContent (detail_or_default detail)
                                            (messageDiv st0))\<rparr>)))
               in (case r1 of
                     Inl thrown \<Rightarrow> Inl thrown
                   | Inr st1 \<Rightarrow>
                       let st2 = st1\<lparr>messageDiv := classList_remove ''hidden'' (messageDiv st1)\<rparr>
                       in Inr (st2\<lparr>timers := timers st2 @ [5000]\<rparr>))))"

definition unregisterParticipant ::
  "reload_function option \<Rightarrow> string \<Rightarrow> string \<Rightarrow> result fetch_result \<Rightarrow>
   activities fetch_result \<Rightarrow> page \<Rightarrow> page" where
  "unregisterParticipant scope activityName email res reload st =
     (case unregister_try scope activityName email res reload st of
        Inr st' \<Rightarrow> st'
      | Inl (error, st') \<Rightarrow>
          st'\<lparr>messageDiv :=
                classList_remove ''hidden''
                  (set_className ''error''
                     (set_textContent
                        (Str ''Failed to unregister participant. Please try again.'')
                        (messageDiv st'))),
              console := console st' @ [(''Error unregistering participant:'', error)]\<rparr>)"

text \<open>The script declares no \<^verbatim>\<open>fetchActivities\<close> at its top level.\<close>

definition top_level_fetchActivities :: "reload_function option" where
  "top_level_fetchActivities = None"

subsection \<open>Example data\<close>

text \<open>The scenario of the specification: one club with one participant and room for
  two; next to it a club nobody has joined yet.\<close>

definition chess_club :: activity where
  "chess_club =
     \<lparr>description = ''Learn chess'', schedule = ''Fridays'', max_participants = Abs_safe_integer 2,
      participants = [''a@x.com'']\<rparr>"

definition art_club :: activity where
  "art_club =
     \<lparr>description = ''Paint'', schedule = ''Mondays'', max_participants = Abs_safe_integer 12,
      participants = []\<rparr>"

definition example_activities :: activities where
  "example_activities = [(''Chess Club'', chess_club), (''Art Club'', art_club)]"

definition activities_response :: "activities response" where
  "activities_response = \<lparr>status = 200, json = Inr example_activities\<rparr>"

text \<open>A page as the user has it before submitting: the club chosen, an address typed,
  the message area hidden.\<close>

definition example_page :: page where
  "example_page =
     \<lparr>activitiesList = [],
      activitySelect =
        \<lparr>options = [placeholder_option,
                    \<lparr>opt_value = ''Chess Club'', opt_textContent = ''Chess Club''\<rparr>],
         selectedIndex = 1\<rparr>,
      email_value = ''b@x.com'',
      email_defaultValue = [],
      messageDiv = \<lparr>textContent = [], classList = [''hidden'']\<rparr>,
      timers = [],
      console = [],
      requests = []\<rparr>"

definition signed_up :: "result response" where
  "signed_up =
     \<lparr>status = 200, json = Inr (Body (Str ''Signed up b@x.com for Chess Club'') Undefined)\<rparr>"

definition activity_full :: "result response" where
  "activity_full = \<lparr>status = 400, json = Inr (Body Undefined (Str ''Activity is full''))\<rparr>"

definition empty_detail :: "result response" where
  "empty_detail = \<lparr>status = 400, json = Inr (Body Undefined (Str []))\<rparr>"

definition ok_not_json :: "result response" where
  "ok_not_json = \<lparr>status = 200, json = Inl SyntaxError\<rparr>"

definition server_error_not_json :: "result response" where
  "server_error_not_json = \<lparr>status = 500, json = Inl SyntaxError\<rparr>"

definition null_body :: "result response" where
  "null_body = \<lparr>status = 200, json = Inr NullBody\<rparr>"

definition null_body_error :: "result response" where
  "null_body_error = \<lparr>status = 400, json = Inr NullBody\<rparr>"

text \<open>A validation error whose \<^verbatim>\<open>detail\<close> is a list of objects.\<close>

definition validation_error :: "result response" where
  "validation_error = \<lparr>status = 422, json = Inr (Body Undefined (Other True ''[object Object]''))\<rparr>"

text \<open>Activities whose strings carry markup: a name that opens a comment, and a
  description that holds the opening and closing tag of a participant row.\<close>

definition comment_activities :: activities where
  "comment_activities = [(''<!--'', chess_club)]"

definition forged_row_club :: activity where
  \<open>forged_row_club =
     \<lparr>description = ''<div class="participant-item"></div>'', schedule = ''Mondays'',
      max_participants = Abs_safe_integer 12, participants = []\<rparr>\<close>

definition forged_row_activities :: activities where
  "forged_row_activities = [(''Art Club'', forged_row_club)]"

section \<open>Rendering\<close>

lemma foldl_render_activitiesList:
  "activitiesList (foldl (render_activity rd) st acts) =
     activitiesList st @
     map (\<lambda>(name, details). \<lparr>localName = ''div'', className = ''activity-card'',
                              innerHTML = Parsed (card_innerHTML name details)\<rparr>) acts"
  by (induction acts arbitrary: st) (auto simp: render_activity_def Let_def)

lemma foldl_render_options:
  "options (activitySelect (foldl (render_activity rd) st acts)) =
     options (activitySelect st) @
     (if rd then map (\<lambda>(name, details). \<lparr>opt_value = name, opt_textContent = name\<rparr>) acts
      else [])"
  by (induction acts arbitrary: st) (auto simp: render_activity_def Let_def)

lemma fetchActivities_parsed:
  "json response = Inr acts \<Longrightarrow>
   fetchActivities rd (Inr response) st =
     Inr (foldl (render_activity rd)
            (if rd
             then st\<lparr>requests := requests st @ [activities_request], activitiesList := [],
                     activitySelect := \<lparr>options = [placeholder_option], selectedIndex = 0\<rparr>\<rparr>
             else st\<lparr>requests := requests st @ [activities_request], activitiesList := []\<rparr>)
            acts)"
  by (simp add: fetchActivities_def fetchActivities_try_def Let_def)

lemma fetchActivities_card:
  assumes "json response = Inr acts" and "i < length acts" and "acts ! i = (name, details)"
  shows "\<exists>st'. fetchActivities rd (Inr response) st = Inr st' \<and>
     length (activitiesList st') = length acts \<and>
     activitiesList st' ! i =
       \<lparr>localName = ''div'', className = ''activity-card'',
        innerHTML = Parsed (card_innerHTML name details)\<rparr>"
  using assms by (simp add: fetchActivities_parsed foldl_render_activitiesList)

lemma Number_toString_examples:
  "Number_toString (Abs_safe_integer 2) = ''2''"
  "Number_toString (Abs_safe_integer 12) = ''12''"
  by (simp_all add: Number_toString_def Abs_safe_integer_inverse ToString_nat.simps)

lemma chess_card:
  "card_innerHTML ''<!--'' chess_club =
     ([CHR 0x0A] @ ''          <h4><!--'') @
     (''</h4>'' @
      [CHR 0x0A] @ ''          <p><strong>Description:</strong> Learn chess</p>'' @
      [CHR 0x0A] @ ''          <p><strong>Schedule:</strong> Fridays</p>'' @
      [CHR 0x0A] @ ''          <p><strong>Capacity:</strong> 1/2</p>'' @
      participants_section_open @ participantsList ''<!--'' chess_club @ card_tail)"
  by (simp add: card_innerHTML_def card_intro_def capacity_paragraph_def chess_club_def
      Number_toString_examples ToString_nat.simps)

lemma sublist_between: "ys = ps @ xs @ ss \<Longrightarrow> sublist xs ys"
  by (auto simp: sublist_def)

lemma comment_card_rest:
  "\<not> sublist ''-->''
     (''</h4>'' @
      [CHR 0x0A] @ ''          <p><strong>Description:</strong> Learn chess</p>'' @
      [CHR 0x0A] @ ''          <p><strong>Schedule:</strong> Fridays</p>'' @
      [CHR 0x0A] @ ''          <p><strong>Capacity:</strong> 1/2</p>'' @
      participants_section_open @ participantsList ''<!--'' chess_club @ card_tail)"
  by (simp add: participants_section_open_def participantsList_def chess_club_def
      participants_list_open_def participant_item_def participant_item_open_def
      participant_email_def delete_btn_def card_tail_def sublist_code(3))

text \<open>What the script assigns always holds the capacity paragraph.\<close>

lemma card_markup_capacity:
  "sublist (''<p><strong>Capacity:</strong> '' @
            ToString_nat (length (participants details)) @ ''/'' @
            Number_toString (max_participants details) @ ''</p>'')
     (card_innerHTML name details)"
  by (rule sublist_between [where ps = "card_intro name details"
        and ss = "participants_section_open @ participantsList name details @ card_tail"])
    (simp add: card_innerHTML_def capacity_paragraph_def)

text \<open>
  \<^bold>\<open>C1.\<close> The specification asks, for every activity map, for one card per key whose
  capacity text is the number of participants, a slash and \<^verbatim>\<open>max_participants\<close>. The
  script builds the card by assigning markup into which name, description and schedule
  are spliced as they are (lines 39 to 48), whereas the dropdown gets the same name as
  text (line 56). For the map with the one activity named \<^verbatim>\<open><!--\<close> the card is there,
  but its markup opens a comment right inside the heading and never closes it: the
  capacity paragraph is part of that comment, so the card the page holds has no capacity
  text.
\<close>

theorem C1_capacity_inside_comment:
  "\<exists>st' rest.
     fetchActivities True (Inr \<lparr>status = 200, json = Inr comment_activities\<rparr>) example_page =
       Inr st' \<and>
     length (activitiesList st') = 1 \<and>
     innerHTML (activitiesList st' ! 0) =
       Parsed (([CHR 0x0A] @ ''          <h4><!--'') @ rest) \<and>
     sublist ''<p><strong>Capacity:</strong> 1/2</p>'' rest \<and>
     \<not> sublist ''-->'' rest"
proof -
  let ?rest = "''</h4>'' @
      [CHR 0x0A] @ ''          <p><strong>Description:</strong> Learn chess</p>'' @
      [CHR 0x0A] @ ''          <p><strong>Schedule:</strong> Fridays</p>'' @
      [CHR 0x0A] @ ''          <p><strong>Capacity:</strong> 1/2</p>'' @
      participants_section_open @ participantsList ''<!--'' chess_club @ card_tail"
  have j: "json \<lparr>status = 200, json = Inr comment_activities\<rparr> = Inr comment_activities"
    by simp
  have i: "(0::nat) < length comment_activities" "comment_activities ! 0 = (''<!--'', chess_club)"
    by (simp_all add: comment_activities_def)
  obtain st' where run:
      "fetchActivities True (Inr \<lparr>status = 200, json = Inr comment_activities\<rparr>) example_page =
        Inr st'"
    and n: "length (activitiesList st') = length comment_activities"
    and c: "activitiesList st' ! 0 =
       \<lparr>localName = ''div'', className = ''activity-card'',
        innerHTML = Parsed (card_innerHTML ''<!--'' chess_club)\<rparr>"
    using fetchActivities_card [OF j i, of True example_page] by blast
  have m: "innerHTML (activitiesList st' ! 0) =
      Parsed (([CHR 0x0A] @ ''          <h4><!--'') @ ?rest)"
    by (simp only: c chess_card element.simps)
  have s: "sublist ''<p><strong>Capacity:</strong> 1/2</p>'' ?rest"
    by (rule sublist_between [where ps = "''</h4>'' @
      [CHR 0x0A] @ ''          <p><strong>Description:</strong> Learn chess</p>'' @
      [CHR 0x0A] @ ''          <p><strong>Schedule:</strong> Fridays</p>'' @
      [CHR 0x0A] @ ''          ''"
      and ss = "participants_section_open @ participantsList ''<!--'' chess_club @ card_tail"])
      simp
  have l: "length (activitiesList st') = 1"
    using n by (simp add: comment_activities_def)
  show ?thesis
    using run l m s comment_card_rest by blast
qed

text \<open>
  \<^bold>\<open>C2.\<close> The specification asks that the card of an activity without participants
  holds the placeholder and no participant row. For the same reason as above it can
  hold one: the activity here has no participants, and the markup assigned to its card
  carries, through the description, a complete \<^verbatim>\<open>participant-item\<close> element.
\<close>

theorem C2_forged_row:
  \<open>\<exists>st' markup.
     fetchActivities True (Inr \<lparr>status = 200, json = Inr forged_row_activities\<rparr>) example_page =
       Inr st' \<and>
     participants (snd (forged_row_activities ! 0)) = [] \<and>
     innerHTML (activitiesList st' ! 0) = Parsed markup \<and>
     sublist ''<div class="participant-item"></div>'' markup\<close>
proof -
  have j: "json \<lparr>status = 200, json = Inr forged_row_activities\<rparr> = Inr forged_row_activities"
    by simp
  have i: "(0::nat) < length forged_row_activities"
    "forged_row_activities ! 0 = (''Art Club'', forged_row_club)"
    by (simp_all add: forged_row_activities_def)
  obtain st' where run:
      "fetchActivities True (Inr \<lparr>status = 200, json = Inr forged_row_activities\<rparr>) example_page =
        Inr st'"
    and c: "activitiesList st' ! 0 =
       \<lparr>localName = ''div'', className = ''activity-card'',
        innerHTML = Parsed (card_innerHTML ''Art Club'' forged_row_club)\<rparr>"
    using fetchActivities_card [OF j i, of True example_page] by blast
  have d: "description forged_row_club = ''<div class=\"participant-item\"></div>''"
    by (simp add: forged_row_club_def)
  have "card_innerHTML ''Art Club'' forged_row_club =
      ([CHR 0x0A] @ ''          <h4>'' @ ''Art Club'' @ ''</h4>'' @
       [CHR 0x0A] @ ''          <p><strong>Description:</strong> '') @
      description forged_row_club @
      (''</p>'' @
       [CHR 0x0A] @ ''          <p><strong>Schedule:</strong> '' @ schedule forged_row_club @ ''</p>'' @
       [CHR 0x0A] @ ''          '' @ capacity_paragraph forged_row_club @
       participants_section_open @ participantsList ''Art Club'' forged_row_club @ card_tail)"
    by (simp add: card_innerHTML_def card_intro_def)
  then have s: "sublist (description forged_row_club) (card_innerHTML ''Art Club'' forged_row_club)"
    by (rule sublist_between)
  have p: "participants (snd (forged_row_activities ! 0)) = []"
    by (simp add: i forged_row_club_def)
  show ?thesis
    using run p c s d by auto
qed

text \<open>
  \<^bold>\<open>C8.\<close> With \<^verbatim>\<open>refreshDropdown = true\<close> and a parsed map of \<open>N\<close> activities, the
  dropdown ends with \<open>N + 1\<close> options: the placeholder, then one option per activity
  name, in the order of the map.
\<close>

theorem C8_dropdown_rebuilt:
  assumes "json response = Inr acts"
  shows "\<exists>st'. fetchActivities True (Inr response) st = Inr st' \<and>
     options (activitySelect st') =
       \<lparr>opt_value = [], opt_textContent = ''-- Select an activity --''\<rparr> #
       map (\<lambda>(name, details). \<lparr>opt_value = name, opt_textContent = name\<rparr>) acts \<and>
     length (options (activitySelect st')) = length acts + 1"
  using assms
  by (simp add: fetchActivities_parsed foldl_render_options placeholder_option_def)

theorem C8_witness:
  "\<exists>st'. fetchActivities True (Inr activities_response) example_page = Inr st' \<and>
     options (activitySelect st') =
       [\<lparr>opt_value = [], opt_textContent = ''-- Select an activity --''\<rparr>,
        \<lparr>opt_value = ''Chess Club'', opt_textContent = ''Chess Club''\<rparr>,
        \<lparr>opt_value = ''Art Club'', opt_textContent = ''Art Club''\<rparr>] \<and>
     length (options (activitySelect st')) = 3"
proof -
  have j: "json activities_response = Inr example_activities"
    by (simp add: activities_response_def)
  show ?thesis
    using C8_dropdown_rebuilt [OF j, of example_page]
    by (auto simp: example_activities_def)
qed

text \<open>
  \<^bold>\<open>C6.\<close> The promise of \<^verbatim>\<open>fetchActivities\<close> is fulfilled whatever the request settles
  with; when the request fails or its body is not JSON, the list container holds the
  fixed failure paragraph and nothing else.
\<close>

theorem C6_fails_soft:
  "(\<exists>st'. fetchActivities rd res st = Inr st') \<and>
   (res = Inl e \<or> (\<exists>response. res = Inr response \<and> json response = Inl e) \<longrightarrow>
      fetchActivities rd res st =
        Inr (st\<lparr>requests := requests st @ [activities_request],
                activitiesList := [failed_to_load],
                console := console st @ [(''Error fetching activities:'', e)]\<rparr>))"
proof (intro conjI impI)
  show "\<exists>st'. fetchActivities rd res st = Inr st'"
    by (simp add: fetchActivities_def fetchActivities_try_def Let_def split: sum.splits prod.splits)
next
  assume "res = Inl e \<or> (\<exists>response. res = Inr response \<and> json response = Inl e)"
  then show "fetchActivities rd res st =
        Inr (st\<lparr>requests := requests st @ [activities_request],
                activitiesList := [failed_to_load],
                console := console st @ [(''Error fetching activities:'', e)]\<rparr>)"
    by (auto simp: fetchActivities_def fetchActivities_try_def Let_def)
qed

theorem C6_witness:
  "fetchActivities True (Inl TypeError) example_page =
     Inr (example_page\<lparr>requests := [activities_request],
            activitiesList :=
              [\<lparr>localName = ''p'', className = [],
                innerHTML = Text ''Failed to load activities. Please try again later.''\<rparr>],
            console := [(''Error fetching activities:'', TypeError)]\<rparr>) \<and>
   fetchActivities False (Inr \<lparr>status = 200, json = Inl SyntaxError\<rparr>) example_page =
     Inr (example_page\<lparr>requests := [activities_request],
            activitiesList :=
              [\<lparr>localName = ''p'', className = [],
                innerHTML = Text ''Failed to load activities. Please try again later.''\<rparr>],
            console := [(''Error fetching activities:'', SyntaxError)]\<rparr>)"
  using C6_fails_soft [of True "Inl TypeError" example_page TypeError]
    C6_fails_soft [of False "Inr \<lparr>status = 200, json = Inl SyntaxError\<rparr>" example_page SyntaxError]
  by (simp add: failed_to_load_def example_page_def)

section \<open>The handlers\<close>






lemma signup_submit_rejected:
  "signup_submit (Inl e) reload st =
     st\<lparr>requests := requests st @
          [signup_request (select_value (activitySelect st)) (email_value st)],
        messageDiv := \<lparr>textContent = ''Failed to sign up. Please try again.'',
                       classList = [''error'']\<rparr>,
        console := console st @ [(''Error signing up:'', e)]\<rparr>"
  by (simp add: signup_submit_def signup_try_def Let_def set_textContent_def text_of_def prop_message_def prop_detail_def set_className_def
      classList_remove_def)

lemma signup_submit_not_json:
  "json response = Inl e \<Longrightarrow>
   signup_submit (Inr response) reload st =
     st\<lparr>requests := requests st @
          [signup_request (select_value (activitySelect st)) (email_value st)],
        messageDiv := \<lparr>textContent = ''Failed to sign up. Please try again.'',
                       classList = [''error'']\<rparr>,
        console := console st @ [(''Error signing up:'', e)]\<rparr>"
  by (simp add: signup_submit_def signup_try_def Let_def set_textContent_def text_of_def prop_message_def prop_detail_def set_className_def
      classList_remove_def)

lemma signup_submit_error_status:
  "json response = Inr (Body m d) \<Longrightarrow> \<not> ok response \<Longrightarrow>
   signup_submit (Inr response) reload st =
     st\<lparr>requests := requests st @
          [signup_request (select_value (activitySelect st)) (email_value st)],
        messageDiv := \<lparr>textContent = text_of (detail_or_default d), classList = [''error'']\<rparr>,
        timers := timers st @ [5000]\<rparr>"
  by (simp add: signup_submit_def signup_try_def Let_def set_textContent_def text_of_def prop_message_def prop_detail_def set_className_def
      classList_remove_def)




lemma unregister_rejected:
  "unregisterParticipant scope activityName email (Inl e) reload st =
     st\<lparr>requests := requests st @ [unregister_request activityName email],
        messageDiv := \<lparr>textContent = ''Failed to unregister participant. Please try again.'',
                       classList = [''error'']\<rparr>,
        console := console st @ [(''Error unregistering participant:'', e)]\<rparr>"
  by (simp add: unregisterParticipant_def unregister_try_def Let_def set_textContent_def text_of_def prop_message_def prop_detail_def
      set_className_def classList_remove_def)

lemma unregister_not_json:
  "json response = Inl e \<Longrightarrow>
   unregisterParticipant scope activityName email (Inr response) reload st =
     st\<lparr>requests := requests st @ [unregister_request activityName email],
        messageDiv := \<lparr>textContent = ''Failed to unregister participant. Please try again.'',
                       classList = [''error'']\<rparr>,
        console := console st @ [(''Error unregistering participant:'', e)]\<rparr>"
  by (simp add: unregisterParticipant_def unregister_try_def Let_def set_textContent_def text_of_def prop_message_def prop_detail_def
      set_className_def classList_remove_def)

lemma unregister_error_status:
  "json response = Inr (Body m d) \<Longrightarrow> \<not> ok response \<Longrightarrow>
   unregisterParticipant scope activityName email (Inr response) reload st =
     st\<lparr>requests := requests st @ [unregister_request activityName email],
        messageDiv := \<lparr>textContent = text_of (detail_or_default d), classList = [''error'']\<rparr>,
        timers := timers st @ [5000]\<rparr>"
  by (simp add: unregisterParticipant_def unregister_try_def Let_def set_textContent_def text_of_def prop_message_def prop_detail_def
      set_className_def classList_remove_def)

lemma unregister_ok_unbound:
  "json response = Inr (Body m d) \<Longrightarrow> ok response \<Longrightarrow>
   unregisterParticipant None activityName email (Inr response) reload st =
     st\<lparr>requests := requests st @ [unregister_request activityName email],
        messageDiv := \<lparr>textContent = ''Failed to unregister participant. Please try again.'',
                       classList = [''error'']\<rparr>,
        console := console st @ [(''Error unregistering participant:'', ReferenceError)]\<rparr>"
  by (simp add: unregisterParticipant_def unregister_try_def Let_def set_textContent_def text_of_def prop_message_def prop_detail_def
      set_className_def classList_remove_def)



lemma signup_submit_null:
  "json response = Inr NullBody \<Longrightarrow>
   signup_submit (Inr response) reload st =
     st\<lparr>requests := requests st @
          [signup_request (select_value (activitySelect st)) (email_value st)],
        messageDiv := \<lparr>textContent = ''Failed to sign up. Please try again.'',
                       classList = [''error'']\<rparr>,
        console := console st @ [(''Error signing up:'', TypeError)]\<rparr>"
  by (simp add: signup_submit_def signup_try_def Let_def set_textContent_def text_of_def
      prop_message_def prop_detail_def set_className_def classList_remove_def)

lemma unregister_null:
  "json response = Inr NullBody \<Longrightarrow>
   unregisterParticipant scope activityName email (Inr response) reload st =
     st\<lparr>requests := requests st @ [unregister_request activityName email],
        messageDiv := \<lparr>textContent = ''Failed to unregister participant. Please try again.'',
                       classList = [''error'']\<rparr>,
        console := console st @ [(''Error unregistering participant:'', TypeError)]\<rparr>"
  by (simp add: unregisterParticipant_def unregister_try_def Let_def set_textContent_def text_of_def
      prop_message_def prop_detail_def set_className_def classList_remove_def)

lemma ok_examples:
  "ok signed_up" "\<not> ok activity_full" "\<not> ok empty_detail" "ok ok_not_json"
  "\<not> ok server_error_not_json" "ok null_body" "\<not> ok null_body_error"
  "\<not> ok validation_error"
  by (simp_all add: ok_def signed_up_def activity_full_def empty_detail_def ok_not_json_def
      server_error_not_json_def null_body_def null_body_error_def validation_error_def)









text \<open>Every message the \<^verbatim>\<open>try\<close> blocks show comes with a timer of 5000 ms, and when a
  timer elapses the message area is hidden.\<close>

lemma try_block_schedules_timer:
  "json response = Inr (Body m d) \<Longrightarrow> \<not> ok response \<Longrightarrow>
   timers (signup_submit (Inr response) reload st) = timers st @ [5000] \<and>
   visible (messageDiv (signup_submit (Inr response) reload st)) \<and>
   timers (unregisterParticipant scope activityName email (Inr response) reload st) =
     timers st @ [5000] \<and>
   visible (messageDiv (unregisterParticipant scope activityName email (Inr response) reload st))"
  by (simp add: signup_submit_error_status unregister_error_status visible_def)

lemma timer_elapses_hides:
  "timers st \<noteq> [] \<Longrightarrow>
   \<not> visible (messageDiv (timer_elapses st)) \<and> timers (timer_elapses st) = tl (timers st)"
  by (cases "timers st") (simp_all add: timer_elapses_def classList_add_def visible_def)

text \<open>
  \<^bold>\<open>C5.\<close> The specification asks for a hide timer with every message shown, transport
  failures included. At a transport failure the \<^verbatim>\<open>catch\<close> clauses (lines 103 to 108 and 149 to
  154) make the message area visible and schedule nothing: the pending timers after the
  handler are the pending timers before it.
\<close>

theorem C5_no_timer_after_transport_failure:
  "timers (signup_submit (Inl e) reload st) = timers st \<and>
   visible (messageDiv (signup_submit (Inl e) reload st)) \<and>
   timers (unregisterParticipant scope activityName email (Inl e) reload st) = timers st \<and>
   visible (messageDiv (unregisterParticipant scope activityName email (Inl e) reload st))"
  by (simp add: signup_submit_rejected unregister_rejected visible_def)

text \<open>With no \<^verbatim>\<open>fetchActivities\<close> in scope at the top level, a successful unregister
  reaches the same \<^verbatim>\<open>catch\<close> clause: the failure text replaces the success message, no
  timer is scheduled and the list is not reloaded.\<close>

lemma unregister_success_ends_in_catch:
  "json response = Inr (Body m d) \<Longrightarrow> ok response \<Longrightarrow>
   messageDiv (unregisterParticipant top_level_fetchActivities activityName email
      (Inr response) reload st) =
     \<lparr>textContent = ''Failed to unregister participant. Please try again.'',
      classList = [''error'']\<rparr> \<and>
   timers (unregisterParticipant top_level_fetchActivities activityName email
      (Inr response) reload st) = timers st \<and>
   activitiesList (unregisterParticipant top_level_fetchActivities activityName email
      (Inr response) reload st) = activitiesList st"
  by (simp add: top_level_fetchActivities_def unregister_ok_unbound)

lemma signup_submit_not_ok_frame:
  assumes "\<not> ok response"
  shows "\<exists>m t c. signup_submit (Inr response) reload st =
            st\<lparr>requests := requests st @
                  [signup_request (select_value (activitySelect st)) (email_value st)],
               messageDiv := m, timers := t, console := c\<rparr>"
proof (cases "json response")
  case (Inl e)
  show ?thesis
    by (rule exI [of _ "\<lparr>textContent = ''Failed to sign up. Please try again.'',
          classList = [''error'']\<rparr>"], rule exI [of _ "timers st"],
        rule exI [of _ "console st @ [(''Error signing up:'', e)]"])
      (simp add: signup_submit_not_json [OF Inl])
next
  case (Inr result)
  show ?thesis
  proof (cases result)
    case NullBody
    with Inr have n: "json response = Inr NullBody" by simp
    show ?thesis
      by (rule exI [of _ "\<lparr>textContent = ''Failed to sign up. Please try again.'',
            classList = [''error'']\<rparr>"], rule exI [of _ "timers st"],
          rule exI [of _ "console st @ [(''Error signing up:'', TypeError)]"])
        (simp add: signup_submit_null [OF n])
  next
    case (Body m d)
    with Inr have n: "json response = Inr (Body m d)" by simp
    show ?thesis
      by (rule exI [of _ "\<lparr>textContent = text_of (detail_or_default d),
            classList = [''error'']\<rparr>"],
          rule exI [of _ "timers st @ [5000]"], rule exI [of _ "console st"])
        (simp add: signup_submit_error_status [OF n assms])
  qed
qed

lemma unregister_not_ok_frame:
  assumes "\<not> ok response"
  shows "\<exists>m t c. unregisterParticipant scope activityName email (Inr response) reload st =
            st\<lparr>requests := requests st @ [unregister_request activityName email],
               messageDiv := m, timers := t, console := c\<rparr>"
proof (cases "json response")
  case (Inl e)
  show ?thesis
    by (rule exI [of _ "\<lparr>textContent = ''Failed to unregister participant. Please try again.'',
          classList = [''error'']\<rparr>"], rule exI [of _ "timers st"],
        rule exI [of _ "console st @ [(''Error unregistering participant:'', e)]"])
      (simp add: unregister_not_json [OF Inl])
next
  case (Inr result)
  show ?thesis
  proof (cases result)
    case NullBody
    with Inr have n: "json response = Inr NullBody" by simp
    show ?thesis
      by (rule exI [of _ "\<lparr>textContent = ''Failed to unregister participant. Please try again.'',
            classList = [''error'']\<rparr>"], rule exI [of _ "timers st"],
          rule exI [of _ "console st @ [(''Error unregistering participant:'', TypeError)]"])
        (simp add: unregister_null [OF n])
  next
    case (Body m d)
    with Inr have n: "json response = Inr (Body m d)" by simp
    show ?thesis
      by (rule exI [of _ "\<lparr>textContent = text_of (detail_or_default d),
            classList = [''error'']\<rparr>"],
          rule exI [of _ "timers st @ [5000]"], rule exI [of _ "console st"])
        (simp add: unregister_error_status [OF n assms])
  qed
qed

text \<open>
  \<^bold>\<open>C10.\<close> After a signup or unregister request answered with a status outside 2xx,
  the page differs from the page before only in the request log (one request more, the
  mutation itself, and no \<^verbatim>\<open>GET /activities\<close>), the message area, the timers and the
  console; the list container and the dropdown are as they were.
\<close>

theorem C10_failed_mutation_leaves_display:
  assumes "\<not> ok response"
  shows "(\<exists>m t c. signup_submit (Inr response) reload st =
            st\<lparr>requests := requests st @
                  [signup_request (select_value (activitySelect st)) (email_value st)],
               messageDiv := m, timers := t, console := c\<rparr>) \<and>
     (\<exists>m t c. unregisterParticipant scope activityName email (Inr response) reload st =
            st\<lparr>requests := requests st @ [unregister_request activityName email],
               messageDiv := m, timers := t, console := c\<rparr>) \<and>
     activitiesList (signup_submit (Inr response) reload st) = activitiesList st \<and>
     activitySelect (signup_submit (Inr response) reload st) = activitySelect st \<and>
     activitiesList (unregisterParticipant scope activityName email (Inr response) reload st) =
       activitiesList st \<and>
     activitySelect (unregisterParticipant scope activityName email (Inr response) reload st) =
       activitySelect st \<and>
     activities_request \<notin> set (drop (length (requests st))
       (requests (signup_submit (Inr response) reload st))) \<and>
     activities_request \<notin> set (drop (length (requests st))
       (requests (unregisterParticipant scope activityName email (Inr response) reload st)))"
proof -
  have a: "\<exists>m t c. signup_submit (Inr response) reload st =
            st\<lparr>requests := requests st @
                  [signup_request (select_value (activitySelect st)) (email_value st)],
               messageDiv := m, timers := t, console := c\<rparr>"
    using assms by (rule signup_submit_not_ok_frame)
  have b: "\<exists>m t c. unregisterParticipant scope activityName email (Inr response) reload st =
            st\<lparr>requests := requests st @ [unregister_request activityName email],
               messageDiv := m, timers := t, console := c\<rparr>"
    using assms by (rule unregister_not_ok_frame)
  from a obtain m t c where a': "signup_submit (Inr response) reload st =
            st\<lparr>requests := requests st @
                  [signup_request (select_value (activitySelect st)) (email_value st)],
               messageDiv := m, timers := t, console := c\<rparr>"
    by blast
  from b obtain m' t' c' where b':
      "unregisterParticipant scope activityName email (Inr response) reload st =
            st\<lparr>requests := requests st @ [unregister_request activityName email],
               messageDiv := m', timers := t', console := c'\<rparr>"
    by blast
  show ?thesis
    using a b
    by (simp add: a' b' signup_request_def unregister_request_def activities_request_def)
qed

theorem C10_witness:
  "activitiesList (signup_submit (Inr activity_full) (Inr activities_response) example_page) =
     activitiesList example_page \<and>
   activitySelect (signup_submit (Inr activity_full) (Inr activities_response) example_page) =
     activitySelect example_page \<and>
   activitiesList (unregisterParticipant None ''Chess Club'' ''z@x.com'' (Inr activity_full)
      (Inr activities_response) example_page) = activitiesList example_page \<and>
   activitySelect (unregisterParticipant None ''Chess Club'' ''z@x.com'' (Inr activity_full)
      (Inr activities_response) example_page) = activitySelect example_page \<and>
   activities_request \<notin> set (drop (length (requests example_page))
     (requests (signup_submit (Inr activity_full) (Inr activities_response) example_page)))"
  using C10_failed_mutation_leaves_display [OF ok_examples(2), of "Inr activities_response"
      example_page None "''Chess Club''" "''z@x.com''"]
  by simp






subsection \<open>Percent-encoding\<close>





subsection \<open>The requests sent\<close>






end
